theory Spec2Isabelle
  imports Main "HOL-Library.Word" "HOL-Library.Sublist"
begin

unbundle bit_operations_syntax

section \<open>JavaScript values and errors\<close>

text \<open>
  The values that travel through the SDK: application payloads, the JSON bodies of requests and
  responses, and the fields read from them. Numbers are integers here; the SDK does no
  arithmetic on payload numbers.
\<close>

datatype jsval =
    JUndefined
  | JNull
  | JBool bool
  | JNum int
  | JStr string
  | JArr "jsval list"
  | JObj "(string \<times> jsval) list"

text \<open>
  The SDK throws one error class, \<^verbatim>\<open>PortIDError\<close>, told apart by its message only. The other
  constructors are the errors of the JavaScript runtime and of Dexie that can escape from the
  SDK's methods unwrapped.
\<close>

datatype error =
    PortIDError string
  | TypeError string
  | SyntaxError string
  | ConstraintError string

fun message :: "error \<Rightarrow> string" where
  "message (PortIDError m) = m"
| "message (TypeError m) = m"
| "message (SyntaxError m) = m"
| "message (ConstraintError m) = m"

text \<open>JavaScript truthiness, as tested by \<^verbatim>\<open>!x\<close> and \<^verbatim>\<open>a || b\<close>.\<close>

fun truthy :: "jsval \<Rightarrow> bool" where
  "truthy JUndefined = False"
| "truthy JNull = False"
| "truthy (JBool b) = b"
| "truthy (JNum n) = (n \<noteq> 0)"
| "truthy (JStr s) = (s \<noteq> [])"
| "truthy (JArr xs) = True"
| "truthy (JObj kvs) = True"

text \<open>
  Property read \<^verbatim>\<open>v.k\<close>, for the property names the SDK reads (\<^verbatim>\<open>message\<close>, \<^verbatim>\<open>ipfsHash\<close>,
  \<^verbatim>\<open>kaironBackup\<close>, \<^verbatim>\<open>pinataContent\<close>): a TypeError on null and undefined, the member of an
  object, and undefined on every other value.
\<close>

fun get_prop :: "jsval \<Rightarrow> string \<Rightarrow> error + jsval" where
  "get_prop JUndefined k = Inl (TypeError (''Cannot read properties of undefined (reading '' @ k @ '')''))"
| "get_prop JNull k = Inl (TypeError (''Cannot read properties of null (reading '' @ k @ '')''))"
| "get_prop (JObj kvs) k = Inr (case map_of kvs k of None \<Rightarrow> JUndefined | Some v \<Rightarrow> v)"
| "get_prop (JBool b) k = Inr JUndefined"
| "get_prop (JNum n) k = Inr JUndefined"
| "get_prop (JStr s) k = Inr JUndefined"
| "get_prop (JArr xs) k = Inr JUndefined"

text \<open>Optional chaining \<^verbatim>\<open>v?.k\<close>: undefined where \<^verbatim>\<open>v.k\<close> would throw.\<close>

definition opt_prop :: "jsval \<Rightarrow> string \<Rightarrow> jsval" where
  "opt_prop v k = (case get_prop v k of Inl e \<Rightarrow> JUndefined | Inr x \<Rightarrow> x)"

text \<open>Decimal digits of a number, for template literals.\<close>

fun digits_of :: "nat \<Rightarrow> nat \<Rightarrow> string" where
  "digits_of 0 n = []"
| "digits_of (Suc fuel) n =
     (if n < 10 then [char_of (48 + n)]
      else digits_of fuel (n div 10) @ [char_of (48 + n mod 10)])"

definition show_nat :: "nat \<Rightarrow> string" where
  "show_nat n = digits_of (Suc n) n"

definition show_int :: "int \<Rightarrow> string" where
  "show_int i = (if i < 0 then CHR ''-'' # show_nat (nat (- i)) else show_nat (nat i))"

fun join_with :: "string \<Rightarrow> string list \<Rightarrow> string" where
  "join_with sep [] = []"
| "join_with sep [x] = x"
| "join_with sep (x # y # ys) = x @ sep @ join_with sep (y # ys)"

text \<open>String conversion of a value inside a template literal \<^verbatim>\<open>`${v}`\<close>.\<close>

fun ToString :: "jsval \<Rightarrow> string" where
  "ToString JUndefined = ''undefined''"
| "ToString JNull = ''null''"
| "ToString (JBool b) = (if b then ''true'' else ''false'')"
| "ToString (JNum n) = show_int n"
| "ToString (JStr s) = s"
| "ToString (JArr xs) =
     join_with '','' (map (\<lambda>x. if x = JNull \<or> x = JUndefined then [] else ToString x) xs)"
| "ToString (JObj kvs) = ''[object Object]''"

section \<open>The platform: fetch, JSON, CryptoJS\<close>

text \<open>
  The SDK reaches the outside through \<^verbatim>\<open>fetch\<close>, and computes with the runtime's \<^verbatim>\<open>JSON\<close> object
  and the CryptoJS library. None of them is code of the SDK, so they are parameters of the
  model, collected in a record. The type \<open>'w\<close> is the state of everything outside the SDK
  instance: the sync server behind \<^verbatim>\<open>fetch\<close> and the random generator.
\<close>

text \<open>
  The options of a request that the SDK sets. The field \<open>verb\<close> is the option \<^verbatim>\<open>method\<close>.
\<close>

record request_init =
  verb :: "string option"
  headers :: "(string \<times> string) list"
  body :: "string option"

text \<open>
  A response as the SDK looks at it: \<^verbatim>\<open>response.ok\<close>, \<^verbatim>\<open>response.statusText\<close>, and what
  \<^verbatim>\<open>response.json()\<close> settles to (\<open>Inl\<close> the message of the SyntaxError it rejects with).
\<close>

record response =
  ok :: bool
  statusText :: string
  json :: "string + jsval"

datatype fetch_result = Rejected string | Resolved response

type_synonym bytes = "8 word list"

record 'w platform =
  fetch :: "'w \<Rightarrow> string \<Rightarrow> request_init \<Rightarrow> fetch_result \<times> 'w"
  JSON_stringify :: "jsval \<Rightarrow> string option"
  JSON_parse :: "string \<Rightarrow> string + jsval"
  AES_encrypt :: "'w \<Rightarrow> string option \<Rightarrow> string \<Rightarrow> string \<times> 'w"
  AES_decrypt :: "jsval \<Rightarrow> string \<Rightarrow> string + bytes"
  Utf8_stringify :: "bytes \<Rightarrow> string + string"
  SHA256 :: "string \<Rightarrow> string"
  WordArray_random :: "'w \<Rightarrow> nat \<Rightarrow> string \<times> 'w"

section \<open>encryption.js\<close>

definition generateRecoveryKey :: "'w platform \<Rightarrow> 'w \<Rightarrow> string \<times> 'w" where
  "generateRecoveryKey pf w = WordArray_random pf w 16"

definition hashPassword :: "'w platform \<Rightarrow> string \<Rightarrow> string" where
  "hashPassword pf password = SHA256 pf password"

definition encryptData :: "'w platform \<Rightarrow> 'w \<Rightarrow> jsval \<Rightarrow> string \<Rightarrow> string \<times> 'w" where
  "encryptData pf w data secretKey =
     (let dataString = JSON_stringify pf data
      in AES_encrypt pf w dataString secretKey)"

text \<open>
  \<^verbatim>\<open>decryptData\<close>: everything sits in a \<^verbatim>\<open>try\<close> whose \<^verbatim>\<open>catch\<close> returns null, and an empty
  decrypted string returns null before it is parsed.
\<close>

definition decryptData :: "'w platform \<Rightarrow> jsval \<Rightarrow> string \<Rightarrow> jsval" where
  "decryptData pf encryptedData secretKey =
     (case AES_decrypt pf encryptedData secretKey of
        Inl thrown \<Rightarrow> JNull
      | Inr bs \<Rightarrow>
          (case Utf8_stringify pf bs of
             Inl thrown \<Rightarrow> JNull
           | Inr decryptedString \<Rightarrow>
               if decryptedString = [] then JNull
               else (case JSON_parse pf decryptedString of
                       Inl thrown \<Rightarrow> JNull
                     | Inr v \<Rightarrow> v)))"

section \<open>The SDK instance\<close>

text \<open>A row of the Dexie table \<^verbatim>\<open>users\<close>, keyed by \<^verbatim>\<open>username\<close>.\<close>

record user =
  username :: string
  hashedPassword :: "string option"
  recoveryKey :: string
  backupHash :: jsval

text \<open>
  The effects of the SDK in the order they are issued: each call of \<^verbatim>\<open>fetch\<close> with its URL and
  options, and each write to the \<^verbatim>\<open>users\<close> table.
\<close>

datatype event =
    Fetch string request_init
  | DbAdd user
  | DbPut user
  | DbUpdate string jsval

text \<open>
  The fields of a \<^verbatim>\<open>PortID\<close> instance (\<^verbatim>\<open>appId\<close>, \<^verbatim>\<open>apiBaseUrl\<close>, \<^verbatim>\<open>db.users\<close>,
  \<^verbatim>\<open>currentUser\<close>), the state \<open>world\<close> of everything outside it, and the \<open>history\<close> of
  effects issued so far.
\<close>

record 'w state =
  appId :: string
  apiBaseUrl :: string
  users :: "string \<rightharpoonup> user"
  currentUser :: "string option"
  world :: 'w
  history :: "event list"

definition endsWith :: "string \<Rightarrow> string \<Rightarrow> bool" where
  "endsWith s x = suffix x s"

text \<open>
  The constructor, on a world \<open>w\<close> and on the rows \<open>db\<close> that the IndexedDB database of this
  application id holds on the device.
\<close>

definition PortID_new :: "'w \<Rightarrow> (string \<rightharpoonup> user) \<Rightarrow> string \<Rightarrow> string \<Rightarrow> error + 'w state" where
  "PortID_new w db app url =
     (if app = [] \<or> url = [] then Inl (PortIDError ''appId and apiBaseUrl are required.'')
      else Inr \<lparr> appId = app,
                 apiBaseUrl = (if endsWith url ''/'' then butlast url else url),
                 users = db,
                 currentUser = None,
                 world = w,
                 history = [] \<rparr>)"

text \<open>
  \<^verbatim>\<open>_request\<close>. A rejected \<^verbatim>\<open>fetch\<close>, a response that is not ok, and anything thrown while its
  error body is read, all leave through the \<^verbatim>\<open>catch\<close> as a PortIDError that starts with
  \<^verbatim>\<open>Network or API error: \<close>. On an ok response the promise of \<^verbatim>\<open>response.json()\<close> is returned
  without \<^verbatim>\<open>await\<close>, so its rejection is not caught and leaves as it is.
\<close>

definition request :: "'w platform \<Rightarrow> 'w state \<Rightarrow> string \<Rightarrow> request_init \<Rightarrow> (error + jsval) \<times> 'w state" where
  "request pf s endpoint options =
     (let url = apiBaseUrl s @ endpoint;
          (res, w') = fetch pf (world s) url options;
          s' = s\<lparr> world := w', history := history s @ [Fetch url options] \<rparr>;
          caught = (\<lambda>m. (Inl (PortIDError (''Network or API error: '' @ m)), s'))
      in case res of
           Rejected m \<Rightarrow> caught m
         | Resolved r \<Rightarrow>
             if \<not> ok r then
               (case json r of
                  Inl m \<Rightarrow> caught m
                | Inr errorData \<Rightarrow>
                    (case get_prop errorData ''message'' of
                       Inl e \<Rightarrow> caught (message e)
                     | Inr msg \<Rightarrow>
                         caught (''API Error: '' @
                                 ToString (if truthy msg then msg else JStr (statusText r)))))
             else
               (case json r of
                  Inl m \<Rightarrow> (Inl (SyntaxError m), s')
                | Inr v \<Rightarrow> (Inr v, s')))"

definition no_options :: request_init where
  "no_options = \<lparr> verb = None, headers = [], body = None \<rparr>"

definition post_json :: "'w platform \<Rightarrow> jsval \<Rightarrow> request_init" where
  "post_json pf v =
     \<lparr> verb = Some ''POST'',
       headers = [(''Content-Type'', ''application/json'')],
       body = JSON_stringify pf v \<rparr>"

text \<open>The Dexie operations on \<^verbatim>\<open>db.users\<close> that write.\<close>

definition db_users_add :: "'w state \<Rightarrow> user \<Rightarrow> (error + unit) \<times> 'w state" where
  "db_users_add s r =
     (case users s (username r) of
        Some old \<Rightarrow> (Inl (ConstraintError ''Key already exists in the object store.''), s)
      | None \<Rightarrow> (Inr (), s\<lparr> users := (users s)(username r \<mapsto> r), history := history s @ [DbAdd r] \<rparr>))"

definition db_users_put :: "'w state \<Rightarrow> user \<Rightarrow> 'w state" where
  "db_users_put s r = s\<lparr> users := (users s)(username r \<mapsto> r), history := history s @ [DbPut r] \<rparr>"

definition db_users_update :: "'w state \<Rightarrow> string \<Rightarrow> jsval \<Rightarrow> 'w state" where
  "db_users_update s k h =
     (case users s k of
        None \<Rightarrow> s\<lparr> history := history s @ [DbUpdate k h] \<rparr>
      | Some r \<Rightarrow> s\<lparr> users := (users s)(k \<mapsto> r\<lparr> backupHash := h \<rparr>),
                     history := history s @ [DbUpdate k h] \<rparr>)"

section \<open>The methods of PortID\<close>

definition msg_required :: string where
  "msg_required = ''Username and password are required.''"

definition msg_exists :: string where
  "msg_exists = ''Username already exists locally.''"

definition msg_initial_backup :: string where
  "msg_initial_backup = ''Initial backup did not return a valid IPFS hash.''"

definition msg_not_logged_in :: string where
  "msg_not_logged_in = ''User is not logged in. Please call login() first.''"

definition msg_no_credentials :: string where
  "msg_no_credentials = ''Could not find user credentials locally.''"

definition msg_backup :: string where
  "msg_backup = ''Backup did not return a valid IPFS hash.''"

definition msg_no_hash :: string where
  "msg_no_hash = ''Could not find a backup hash for this user.''"

definition msg_format :: string where
  "msg_format = ''Backup data blob is in an unexpected format.''"

definition msg_decrypt :: string where
  "msg_decrypt = ''Decryption failed. The Recovery Key is likely incorrect.''"

definition initialData :: jsval where
  "initialData = JObj [(''sdk_version'', JStr ''1.0.0'')]"

definition set_hash_body :: "string \<Rightarrow> string \<Rightarrow> jsval \<Rightarrow> jsval" where
  "set_hash_body app uname h =
     JObj [(''app_id'', JStr app), (''username'', JStr uname), (''hash'', h)]"

definition backup_body :: "string \<Rightarrow> string \<Rightarrow> jsval" where
  "backup_body encryptedData uname =
     JObj [(''encryptedData'', JStr encryptedData), (''username'', JStr uname)]"

definition signUp :: "'w platform \<Rightarrow> 'w state \<Rightarrow> string \<Rightarrow> string \<Rightarrow> (error + string) \<times> 'w state" where
  "signUp pf s uname password =
     (if uname = [] \<or> password = [] then (Inl (PortIDError msg_required), s)
      else (case users s uname of
        Some existingUser \<Rightarrow> (Inl (PortIDError msg_exists), s)
      | None \<Rightarrow>
         (let (key, w1) = generateRecoveryKey pf (world s);
              s1 = s\<lparr> world := w1 \<rparr>;
              hashed = hashPassword pf password
          in case request pf s1 ''/api/set-hash''
                    (post_json pf (set_hash_body (appId s1) uname (JStr ''pending_first_backup''))) of
               (Inl e, s2) \<Rightarrow> (Inl e, s2)
             | (Inr placeholderResponse, s2) \<Rightarrow>
                (let (encryptedData, w3) = encryptData pf (world s2) initialData key;
                     s3 = s2\<lparr> world := w3 \<rparr>
                 in case request pf s3 ''/api/backup'' (post_json pf (backup_body encryptedData uname)) of
                      (Inl e, s4) \<Rightarrow> (Inl e, s4)
                    | (Inr backupResponse, s4) \<Rightarrow>
                       (case get_prop backupResponse ''ipfsHash'' of
                          Inl e \<Rightarrow> (Inl e, s4)
                        | Inr ipfsHash \<Rightarrow>
                           if \<not> truthy ipfsHash then (Inl (PortIDError msg_initial_backup), s4)
                           else (case request pf s4 ''/api/set-hash''
                                        (post_json pf (set_hash_body (appId s4) uname ipfsHash)) of
                                   (Inl e, s5) \<Rightarrow> (Inl e, s5)
                                 | (Inr directoryResponse, s5) \<Rightarrow>
                                    (let credentials = \<lparr> username = uname,
                                                          hashedPassword = Some hashed,
                                                          recoveryKey = key,
                                                          backupHash = ipfsHash \<rparr>
                                     in case db_users_add s5 credentials of
                                          (Inl e, s6) \<Rightarrow> (Inl e, s6)
                                        | (Inr done, s6) \<Rightarrow> (Inr key, s6))))))))"

definition login :: "'w platform \<Rightarrow> 'w state \<Rightarrow> string \<Rightarrow> string \<Rightarrow> (error + bool) \<times> 'w state" where
  "login pf s uname password =
     (let found = users s uname;
          hashed = hashPassword pf password
      in case found of
           None \<Rightarrow> (Inr False, s)
         | Some u \<Rightarrow>
             if hashedPassword u = Some hashed
             then (Inr True, s\<lparr> currentUser := Some uname \<rparr>)
             else (Inr False, s))"

definition logout :: "'w state \<Rightarrow> 'w state" where
  "logout s = s\<lparr> currentUser := None \<rparr>"

definition backupData :: "'w platform \<Rightarrow> 'w state \<Rightarrow> jsval \<Rightarrow> (error + jsval) \<times> 'w state" where
  "backupData pf s data =
     (case currentUser s of
        None \<Rightarrow> (Inl (PortIDError msg_not_logged_in), s)
      | Some cur \<Rightarrow>
         if cur = [] then (Inl (PortIDError msg_not_logged_in), s)
         else (case users s cur of
           None \<Rightarrow> (Inl (PortIDError msg_no_credentials), s)
         | Some u \<Rightarrow>
            (let (encryptedData, w1) = encryptData pf (world s) data (recoveryKey u);
                 s1 = s\<lparr> world := w1 \<rparr>
             in case request pf s1 ''/api/backup'' (post_json pf (backup_body encryptedData cur)) of
                  (Inl e, s2) \<Rightarrow> (Inl e, s2)
                | (Inr backupResponse, s2) \<Rightarrow>
                   (case get_prop backupResponse ''ipfsHash'' of
                      Inl e \<Rightarrow> (Inl e, s2)
                    | Inr ipfsHash \<Rightarrow>
                       if \<not> truthy ipfsHash then (Inl (PortIDError msg_backup), s2)
                       else (case request pf s2 ''/api/set-hash''
                                    (post_json pf (set_hash_body (appId s2) cur ipfsHash)) of
                               (Inl e, s3) \<Rightarrow> (Inl e, s3)
                             | (Inr directoryResponse, s3) \<Rightarrow>
                                 (Inr ipfsHash, db_users_update s3 cur ipfsHash))))))"

text \<open>
  The endpoints of \<^verbatim>\<open>restoreData\<close>, built by its template literals, and the expression
  \<^verbatim>\<open>restoreResponse.kaironBackup || restoreResponse.pinataContent?.kaironBackup\<close>.
\<close>

definition get_hash_endpoint :: "string \<Rightarrow> string \<Rightarrow> string" where
  "get_hash_endpoint app uname = ''/api/get-hash?app_id='' @ app @ ''&username='' @ uname"

definition restore_endpoint :: "jsval \<Rightarrow> string" where
  "restore_endpoint ipfsHash = ''/api/restore?hash='' @ ToString ipfsHash"

definition encrypted_blob_of :: "jsval \<Rightarrow> error + jsval" where
  "encrypted_blob_of restoreResponse =
     (case get_prop restoreResponse ''kaironBackup'' of
        Inl e \<Rightarrow> Inl e
      | Inr direct \<Rightarrow>
          if truthy direct then Inr direct
          else (case get_prop restoreResponse ''pinataContent'' of
                  Inl e \<Rightarrow> Inl e
                | Inr pinata \<Rightarrow> Inr (opt_prop pinata ''kaironBackup'')))"

definition restoreData :: "'w platform \<Rightarrow> 'w state \<Rightarrow> string \<Rightarrow> string \<Rightarrow> (error + jsval) \<times> 'w state" where
  "restoreData pf s uname key =
     (case request pf s (get_hash_endpoint (appId s) uname) no_options of
        (Inl e, s1) \<Rightarrow> (Inl e, s1)
      | (Inr directoryResponse, s1) \<Rightarrow>
         (case get_prop directoryResponse ''ipfsHash'' of
            Inl e \<Rightarrow> (Inl e, s1)
          | Inr ipfsHash \<Rightarrow>
             if \<not> truthy ipfsHash then (Inl (PortIDError msg_no_hash), s1)
             else (case request pf s1 (restore_endpoint ipfsHash) no_options of
                    (Inl e, s2) \<Rightarrow> (Inl e, s2)
                  | (Inr restoreResponse, s2) \<Rightarrow>
                     (case encrypted_blob_of restoreResponse of
                        Inl e \<Rightarrow> (Inl e, s2)
                      | Inr encryptedDataBlob \<Rightarrow>
                         if \<not> truthy encryptedDataBlob then (Inl (PortIDError msg_format), s2)
                         else (let decryptedData = decryptData pf encryptedDataBlob key
                               in if decryptedData = JNull
                                  then (Inl (PortIDError msg_decrypt), s2)
                                  else (Inr decryptedData,
                                        db_users_put s2 \<lparr> username = uname,
                                                          hashedPassword = None,
                                                          recoveryKey = key,
                                                          backupHash = ipfsHash \<rparr>))))))"

section \<open>The effects of a run\<close>





text \<open>
  The two requests of \<^verbatim>\<open>restoreData\<close>: to the directory for the pointer of \<^verbatim>\<open>(appId, username)\<close>, and
  to storage for the blob under that pointer.
\<close>

definition directory_lookup :: "'w platform \<Rightarrow> 'w state \<Rightarrow> string \<Rightarrow> (error + jsval) \<times> 'w state" where
  "directory_lookup pf s uname = request pf s (get_hash_endpoint (appId s) uname) no_options"

definition blob_fetch :: "'w platform \<Rightarrow> 'w state \<Rightarrow> jsval \<Rightarrow> (error + jsval) \<times> 'w state" where
  "blob_fetch pf s ipfsHash = request pf s (restore_endpoint ipfsHash) no_options"

section \<open>The spec's failure names\<close>

text \<open>
  The spec names kinds of failure; the code has the one class PortIDError. Each name below is
  the PortIDError that the code throws at the place the spec describes.
\<close>

definition DuplicateUser :: error where
  "DuplicateUser = PortIDError msg_exists"

definition NotLoggedIn :: error where
  "NotLoggedIn = PortIDError msg_not_logged_in"

definition BackupFailed :: error where
  "BackupFailed = PortIDError msg_initial_backup"

definition NoBackupFound :: error where
  "NoBackupFound = PortIDError msg_no_hash"

definition BlobUnavailable :: error where
  "BlobUnavailable = PortIDError msg_format"

definition InvalidRecoveryKey :: error where
  "InvalidRecoveryKey = PortIDError msg_decrypt"


section \<open>Payloads and keys that round-trip\<close>

text \<open>
  A payload is JSON-serializable on a platform when \<^verbatim>\<open>JSON.stringify\<close> gives it a text, not empty,
  that \<^verbatim>\<open>JSON.parse\<close> reads back as the same value.
\<close>

definition json_serializable :: "'w platform \<Rightarrow> jsval \<Rightarrow> bool" where
  "json_serializable pf P =
     (case JSON_stringify pf P of
        None \<Rightarrow> False
      | Some t \<Rightarrow> t \<noteq> [] \<and> JSON_parse pf t = Inr P)"

text \<open>
  A key is valid for a text when CryptoJS, decrypting under the key what it encrypted under the
  key, gives bytes that decode to the text again.
\<close>

definition valid_key :: "'w platform \<Rightarrow> 'w \<Rightarrow> string option \<Rightarrow> string \<Rightarrow> bool" where
  "valid_key pf w t K =
     (case AES_decrypt pf (JStr (fst (AES_encrypt pf w t K))) K of
        Inl thrown \<Rightarrow> False
      | Inr bs \<Rightarrow> (case t of None \<Rightarrow> False | Some x \<Rightarrow> Utf8_stringify pf bs = Inr x))"

section \<open>A reference platform\<close>

text \<open>
  A platform to run the SDK on: a JSON printer and reader for the values above, a hex-encoded
  XOR stream cipher in the place of CryptoJS's AES, and the sync server.
\<close>

subsection \<open>Hex and bytes\<close>

definition hex_digit :: "nat \<Rightarrow> char" where
  "hex_digit n = (if n < 10 then char_of (48 + n) else char_of (87 + n))"

definition hex_of_byte :: "8 word \<Rightarrow> string" where
  "hex_of_byte b = [hex_digit (unat b div 16), hex_digit (unat b mod 16)]"

definition hex_of_bytes :: "bytes \<Rightarrow> string" where
  "hex_of_bytes bs = concat (map hex_of_byte bs)"

definition hex_value :: "char \<Rightarrow> nat option" where
  "hex_value c =
     (let n = of_char c :: nat
      in if 48 \<le> n \<and> n \<le> 57 then Some (n - 48)
         else if 97 \<le> n \<and> n \<le> 102 then Some (n - 87)
         else None)"

fun bytes_of_hex :: "string \<Rightarrow> bytes option" where
  "bytes_of_hex [] = Some []"
| "bytes_of_hex [c] = None"
| "bytes_of_hex (c # d # cs) =
     (case (hex_value c, hex_value d, bytes_of_hex cs) of
        (Some h, Some l, Some bs) \<Rightarrow> Some (word_of_nat (16 * h + l) # bs)
      | _ \<Rightarrow> None)"

definition bytes_of_string :: "string \<Rightarrow> bytes" where
  "bytes_of_string s = map (\<lambda>c. word_of_nat (of_char c)) s"

subsection \<open>JSON text\<close>

fun quote_chars :: "string \<Rightarrow> string" where
  "quote_chars [] = []"
| "quote_chars (c # cs) =
     (if c = CHR ''\"'' \<or> c = CHR 0x5C then CHR 0x5C # c # quote_chars cs else c # quote_chars cs)"

definition quote :: "string \<Rightarrow> string" where
  "quote s = CHR ''\"'' # quote_chars s @ [CHR ''\"'']"

fun json_print :: "jsval \<Rightarrow> string option" where
  "json_print JUndefined = None"
| "json_print JNull = Some ''null''"
| "json_print (JBool b) = Some (if b then ''true'' else ''false'')"
| "json_print (JNum n) = Some (show_int n)"
| "json_print (JStr s) = Some (quote s)"
| "json_print (JArr xs) =
     Some (''['' @ join_with '',''
             (map (\<lambda>x. case json_print x of None \<Rightarrow> ''null'' | Some t \<Rightarrow> t) xs) @ '']'')"
| "json_print (JObj kvs) =
     Some (''{'' @ join_with '',''
             (concat (map (\<lambda>kv. case json_print (snd kv) of
                                   None \<Rightarrow> []
                                 | Some t \<Rightarrow> [quote (fst kv) @ '':'' @ t]) kvs)) @ ''}'')"

fun read_string :: "string \<Rightarrow> (string \<times> string) option" where
  "read_string [] = None"
| "read_string (c # cs) =
     (if c = CHR ''\"'' then Some ([], cs)
      else if c = CHR 0x5C then
        (case cs of
           [] \<Rightarrow> None
         | d # ds \<Rightarrow> (case read_string ds of None \<Rightarrow> None | Some (t, rest) \<Rightarrow> Some (d # t, rest)))
      else (case read_string cs of None \<Rightarrow> None | Some (t, rest) \<Rightarrow> Some (c # t, rest)))"

definition is_digit :: "char \<Rightarrow> bool" where
  "is_digit c = (48 \<le> (of_char c :: nat) \<and> (of_char c :: nat) \<le> 57)"

definition nat_of_digits :: "string \<Rightarrow> nat" where
  "nat_of_digits ds = foldl (\<lambda>n c. 10 * n + (of_char c - 48)) 0 ds"

definition read_nat :: "string \<Rightarrow> (nat \<times> string) option" where
  "read_nat s =
     (let ds = takeWhile is_digit s
      in if ds = [] then None else Some (nat_of_digits ds, dropWhile is_digit s))"

text \<open>
  The reader descends by recursion on its first argument, which bounds the nesting depth; the
  text itself is long enough for that.
\<close>

fun read_value :: "string \<Rightarrow> string \<Rightarrow> (jsval \<times> string) option"
  and read_elems :: "string \<Rightarrow> string \<Rightarrow> (jsval list \<times> string) option"
  and read_members :: "string \<Rightarrow> string \<Rightarrow> ((string \<times> jsval) list \<times> string) option"
where
  "read_value [] s = None"
| "read_value (f # fuel) s =
     (case s of
        [] \<Rightarrow> None
      | c # cs \<Rightarrow>
          if c = CHR ''\"'' then
            (case read_string cs of None \<Rightarrow> None | Some (t, rest) \<Rightarrow> Some (JStr t, rest))
          else if c = CHR ''['' then
            (case cs of
               [] \<Rightarrow> None
             | d # ds \<Rightarrow> if d = CHR '']'' then Some (JArr [], ds)
                         else (case read_elems fuel cs of
                                 None \<Rightarrow> None
                               | Some (xs, rest) \<Rightarrow> Some (JArr xs, rest)))
          else if c = CHR ''{'' then
            (case cs of
               [] \<Rightarrow> None
             | d # ds \<Rightarrow> if d = CHR ''}'' then Some (JObj [], ds)
                         else (case read_members fuel cs of
                                 None \<Rightarrow> None
                               | Some (kvs, rest) \<Rightarrow> Some (JObj kvs, rest)))
          else if c = CHR ''-'' then
            (case read_nat cs of None \<Rightarrow> None | Some (n, rest) \<Rightarrow> Some (JNum (- int n), rest))
          else if is_digit c then
            (case read_nat s of None \<Rightarrow> None | Some (n, rest) \<Rightarrow> Some (JNum (int n), rest))
          else if take 4 s = ''null'' then Some (JNull, drop 4 s)
          else if take 4 s = ''true'' then Some (JBool True, drop 4 s)
          else if take 5 s = ''false'' then Some (JBool False, drop 5 s)
          else None)"
| "read_elems [] s = None"
| "read_elems (f # fuel) s =
     (case read_value fuel s of
        None \<Rightarrow> None
      | Some (x, rest) \<Rightarrow>
          (case rest of
             [] \<Rightarrow> None
           | c # cs \<Rightarrow>
               if c = CHR '']'' then Some ([x], cs)
               else if c = CHR '','' then
                 (case read_elems fuel cs of None \<Rightarrow> None | Some (xs, rest') \<Rightarrow> Some (x # xs, rest'))
               else None))"
| "read_members [] s = None"
| "read_members (f # fuel) s =
     (case s of
        [] \<Rightarrow> None
      | q # s1 \<Rightarrow>
          if q \<noteq> CHR ''\"'' then None
          else (case read_string s1 of
                  None \<Rightarrow> None
                | Some (k, s2) \<Rightarrow>
                    (case s2 of
                       [] \<Rightarrow> None
                     | colon # s3 \<Rightarrow>
                         if colon \<noteq> CHR '':'' then None
                         else (case read_value fuel s3 of
                                 None \<Rightarrow> None
                               | Some (v, rest) \<Rightarrow>
                                   (case rest of
                                      [] \<Rightarrow> None
                                    | c # cs \<Rightarrow>
                                        if c = CHR ''}'' then Some ([(k, v)], cs)
                                        else if c = CHR '','' then
                                          (case read_members fuel cs of
                                             None \<Rightarrow> None
                                           | Some (kvs, rest') \<Rightarrow> Some ((k, v) # kvs, rest'))
                                        else None)))))"

definition json_read :: "string \<Rightarrow> string + jsval" where
  "json_read s =
     (case read_value (s @ s) s of
        Some (v, []) \<Rightarrow> Inr v
      | _ \<Rightarrow> Inl ''Unexpected token in JSON'')"

subsection \<open>A cipher without authentication\<close>

text \<open>
  The bytes of the text are XORed with the bytes of the key, repeated, and written in hex.
  Under another key the same steps give other bytes, and nothing in the ciphertext tells.
\<close>

fun xor_stream :: "bytes \<Rightarrow> bytes \<Rightarrow> bytes \<Rightarrow> bytes" where
  "xor_stream key ks [] = []"
| "xor_stream key [] (b # bs) =
     (case key of [] \<Rightarrow> b # bs | k # ks \<Rightarrow> (b XOR k) # xor_stream key ks bs)"
| "xor_stream key (k # ks) (b # bs) = (b XOR k) # xor_stream key ks bs"

definition xor_decrypt :: "jsval \<Rightarrow> string \<Rightarrow> string + bytes" where
  "xor_decrypt c k =
     (case c of
        JStr t \<Rightarrow>
          (case bytes_of_hex t of
             None \<Rightarrow> Inl ''Malformed ciphertext''
           | Some bs \<Rightarrow> Inr (xor_stream (bytes_of_string k) [] bs))
      | _ \<Rightarrow> Inl ''Malformed ciphertext'')"

definition ascii_stringify :: "bytes \<Rightarrow> string + string" where
  "ascii_stringify bs =
     (if list_all (\<lambda>b. unat b < 128) bs then Inr (map (\<lambda>b. char_of (unat b)) bs)
      else Inl ''Malformed UTF-8 data'')"

definition demo_hash :: "string \<Rightarrow> string" where
  "demo_hash p = hex_of_bytes (rev (bytes_of_string p))"

subsection \<open>The sync server\<close>

text \<open>
  The state of the sync server: the directory from application id and username to the current
  pointer, the content-addressed storage, and the state of the random generator.
\<close>

record server =
  directory :: "(string \<times> string) \<rightharpoonup> jsval"
  storage :: "string \<rightharpoonup> string"
  entropy :: nat

fun split_at :: "char \<Rightarrow> string \<Rightarrow> string \<times> string option" where
  "split_at sep [] = ([], None)"
| "split_at sep (c # cs) =
     (if c = sep then ([], Some cs)
      else (case split_at sep cs of (a, rest) \<Rightarrow> (c # a, rest)))"

fun split_all :: "char \<Rightarrow> string \<Rightarrow> string \<Rightarrow> string list" where
  "split_all sep acc [] = [rev acc]"
| "split_all sep acc (c # cs) =
     (if c = sep then rev acc # split_all sep [] cs else split_all sep (c # acc) cs)"

definition query_param :: "string \<Rightarrow> string \<times> string" where
  "query_param p =
     (case split_at CHR ''='' p of (k, v) \<Rightarrow> (k, case v of None \<Rightarrow> [] | Some x \<Rightarrow> x))"

definition parse_query :: "string \<Rightarrow> (string \<times> string) list" where
  "parse_query q = map query_param (filter (\<lambda>p. p \<noteq> []) (split_all CHR ''&'' [] q))"

definition reply :: "jsval \<Rightarrow> server \<Rightarrow> fetch_result \<times> server" where
  "reply v w = (Resolved \<lparr> ok = True, statusText = ''OK'', json = Inr v \<rparr>, w)"

definition refuse :: "string \<Rightarrow> string \<Rightarrow> server \<Rightarrow> fetch_result \<times> server" where
  "refuse status m w =
     (Resolved \<lparr> ok = False, statusText = status, json = Inr (JObj [(''message'', JStr m)]) \<rparr>, w)"

definition cid :: "string \<Rightarrow> string" where
  "cid blob = ''Qm'' @ blob"

definition is_post :: "request_init \<Rightarrow> bool" where
  "is_post opts = (verb opts = Some ''POST'')"

definition is_get :: "request_init \<Rightarrow> bool" where
  "is_get opts = (verb opts = None \<or> verb opts = Some ''GET'')"

definition body_json :: "request_init \<Rightarrow> jsval" where
  "body_json opts =
     (case body opts of
        None \<Rightarrow> JUndefined
      | Some t \<Rightarrow> (case json_read t of Inl m \<Rightarrow> JUndefined | Inr v \<Rightarrow> v))"

text \<open>
  Modelled from the spec: the PortID Sync Server, whose code is not among the sources. It is
  the spec's directory service (\<^verbatim>\<open>setPointer\<close> with upsert semantics, \<^verbatim>\<open>getPointer\<close>) and storage
  service (\<^verbatim>\<open>store\<close> giving a content pointer, \<^verbatim>\<open>fetch\<close> by content pointer) behind the four
  endpoints the SDK calls. A query string is split at \<^verbatim>\<open>&\<close> and each part at its first \<^verbatim>\<open>=\<close>, as
  HTTP query strings are; percent-decoding is left out. A missing directory entry is answered
  with a null \<^verbatim>\<open>ipfsHash\<close>, missing content with a response that is not ok.
\<close>

definition sync_server :: "string \<Rightarrow> server \<Rightarrow> string \<Rightarrow> request_init \<Rightarrow> fetch_result \<times> server" where
  "sync_server origin w url opts =
     (if \<not> prefix origin url then (Rejected ''Failed to fetch'', w)
      else
        (let (route, q) = split_at CHR ''?'' (drop (length origin) url);
             params = parse_query (case q of None \<Rightarrow> [] | Some x \<Rightarrow> x);
             sent = body_json opts
         in if route = ''/api/set-hash'' \<and> is_post opts then
              (case (opt_prop sent ''app_id'', opt_prop sent ''username'', opt_prop sent ''hash'') of
                 (JStr a, JStr u, JStr h) \<Rightarrow>
                    reply (JObj [(''success'', JBool True)])
                      (w\<lparr> directory := (directory w)((a, u) \<mapsto> JStr h) \<rparr>)
               | _ \<Rightarrow> refuse ''Bad Request'' ''app_id, username and hash are required'' w)
            else if route = ''/api/backup'' \<and> is_post opts then
              (case opt_prop sent ''encryptedData'' of
                 JStr c \<Rightarrow>
                    reply (JObj [(''ipfsHash'', JStr (cid c))])
                      (w\<lparr> storage := (storage w)(cid c \<mapsto> c) \<rparr>)
               | _ \<Rightarrow> refuse ''Bad Request'' ''encryptedData is required'' w)
            else if route = ''/api/get-hash'' \<and> is_get opts then
              (case (map_of params ''app_id'', map_of params ''username'') of
                 (Some a, Some u) \<Rightarrow>
                    reply (JObj [(''ipfsHash'', case directory w (a, u) of None \<Rightarrow> JNull | Some h \<Rightarrow> h)]) w
               | _ \<Rightarrow> refuse ''Bad Request'' ''app_id and username are required'' w)
            else if route = ''/api/restore'' \<and> is_get opts then
              (case map_of params ''hash'' of
                 None \<Rightarrow> refuse ''Bad Request'' ''hash is required'' w
               | Some h \<Rightarrow>
                  (case storage w h of
                     None \<Rightarrow> refuse ''Not Found'' ''no content for this hash'' w
                   | Some c \<Rightarrow> reply (JObj [(''kaironBackup'', JStr c)]) w))
            else refuse ''Not Found'' ''no such endpoint'' w))"

definition xor_encrypt :: "server \<Rightarrow> string option \<Rightarrow> string \<Rightarrow> string \<times> server" where
  "xor_encrypt w m k =
     (hex_of_bytes (xor_stream (bytes_of_string k) []
                      (bytes_of_string (case m of None \<Rightarrow> [] | Some t \<Rightarrow> t))), w)"

definition demo_random :: "server \<Rightarrow> nat \<Rightarrow> string \<times> server" where
  "demo_random w n =
     (hex_of_bytes (map (\<lambda>i. word_of_nat (entropy w + i)) [0..<n]), w\<lparr> entropy := entropy w + n \<rparr>)"

definition demo :: "string \<Rightarrow> server platform" where
  "demo origin =
     \<lparr> fetch = sync_server origin,
       JSON_stringify = json_print,
       JSON_parse = json_read,
       AES_encrypt = xor_encrypt,
       AES_decrypt = xor_decrypt,
       Utf8_stringify = ascii_stringify,
       SHA256 = demo_hash,
       WordArray_random = demo_random \<rparr>"

definition online :: "server platform" where
  "online = demo ''https://sync.example''"

text \<open>The same platform with the network down: every \<^verbatim>\<open>fetch\<close> rejects.\<close>

definition offline :: "server platform" where
  "offline = online \<lparr> fetch := (\<lambda>w url opts. (Rejected ''Failed to fetch'', w)) \<rparr>"


definition server0 :: server where
  "server0 = \<lparr> directory = Map.empty, storage = Map.empty, entropy = 65 \<rparr>"

text \<open>A fresh instance, and one that holds a record for alice, who is logged in.\<close>

definition sdk0 :: "server state" where
  "sdk0 = \<lparr> appId = ''app'', apiBaseUrl = ''https://sync.example'', users = Map.empty,
            currentUser = None, world = server0, history = [] \<rparr>"

definition alice :: user where
  "alice = \<lparr> username = ''alice'', hashedPassword = Some (demo_hash ''pw1''),
             recoveryKey = ''4142434445464748494a4b4c4d4e4f50'', backupHash = JStr ''Qm00'' \<rparr>"

definition sdk_alice :: "server state" where
  "sdk_alice = sdk0 \<lparr> users := [''alice'' \<mapsto> alice], currentUser := Some ''alice'' \<rparr>"

definition app_notes :: jsval where
  "app_notes = JObj [(''notes'', JStr ''hi'')]"




text \<open>
  The instance after alice has signed up, and after she has logged in and backed up her notes.
\<close>

definition sdk_signed :: "server state" where
  "sdk_signed = snd (signUp online sdk0 ''alice'' ''pw1'')"

definition sdk_backed :: "server state" where
  "sdk_backed = snd (backupData online (snd (login online sdk_signed ''alice'' ''pw1'')) app_notes)"

section \<open>Login\<close>

lemma login_unchanged:
  "fst (login pf s uname password) \<noteq> Inr True \<Longrightarrow> snd (login pf s uname password) = s"
  by (simp add: login_def Let_def split: option.splits if_splits)

text \<open>
  C10: a login that does not succeed, for a wrong password or for a username without a local
  record, leaves the session's current user as it was; a failed login for one username does
  not clear the session of another.
\<close>

theorem login_failure_keeps_session:
  "fst (login pf s uname password) \<noteq> Inr True \<Longrightarrow>
   currentUser (snd (login pf s uname password)) = currentUser s"
  by (simp add: login_def Let_def split: option.splits if_splits)

theorem login_failure_keeps_session_witness:
  "fst (login offline sdk_alice ''bob'' ''secret'') \<noteq> Inr True \<and>
   currentUser sdk_alice = Some ''alice'' \<and>
   currentUser (snd (login offline sdk_alice ''bob'' ''secret'')) = Some ''alice''"
proof -
  have failed: "fst (login offline sdk_alice ''bob'' ''secret'') \<noteq> Inr True"
    by (simp add: login_def sdk_alice_def sdk0_def)
  have "currentUser sdk_alice = Some ''alice''"
    by (simp add: sdk_alice_def)
  with failed login_failure_keeps_session [OF failed] show ?thesis by simp
qed

text \<open>
  C5 as stated asks \<^verbatim>\<open>login\<close> to fail with a distinct error when the username has no local
  record. The code returns the boolean false there: with no record for bob, the result is
  \<open>Inr False\<close>, not an error.
\<close>

theorem login_unknown_user_counterexample:
  "users sdk0 ''bob'' = None \<and> fst (login offline sdk0 ''bob'' ''secret'') = Inr False"
  by (simp add: login_def sdk0_def)

text \<open>
  C5, amended: \<^verbatim>\<open>login\<close> never fails. It returns true exactly when a record for the username
  exists and \<^verbatim>\<open>hashPassword(password)\<close> equals its stored password verifier, and false
  otherwise, also when the username has no local record.
\<close>

theorem login_result:
  "fst (login pf s uname password) =
     Inr (\<exists>u. users s uname = Some u \<and> hashedPassword u = Some (hashPassword pf password))"
  by (simp add: login_def Let_def split: option.splits)

theorem login_result_witness:
  "fst (login offline sdk_alice ''alice'' ''pw1'') = Inr True \<and>
   fst (login offline sdk_alice ''alice'' ''wrong'') = Inr False \<and>
   fst (login offline sdk_alice ''bob'' ''pw1'') = Inr False"
  using login_result [of offline sdk_alice "''alice''" "''pw1''"]
        login_result [of offline sdk_alice "''alice''" "''wrong''"]
        login_result [of offline sdk_alice "''bob''" "''pw1''"]
  by (simp add: sdk_alice_def sdk0_def alice_def hashPassword_def offline_def online_def demo_def demo_hash_def
        hex_of_bytes_def hex_of_byte_def bytes_of_string_def)

section \<open>Requests leave the instance alone\<close>

lemma request_frame:
  assumes "request pf s ep opts = (r, s')"
  shows "history s' = history s @ [Fetch (apiBaseUrl s @ ep) opts]"
    and "users s' = users s" and "currentUser s' = currentUser s"
    and "appId s' = appId s" and "apiBaseUrl s' = apiBaseUrl s"
  using assms
  by (auto simp: request_def Let_def split: prod.splits fetch_result.splits if_splits sum.splits)


lemma request_reply:
  assumes "fetch pf (world s) (apiBaseUrl s @ ep) opts = reply v w'"
  shows "request pf s ep opts
           = (Inr v, s\<lparr>world := w', history := history s @ [Fetch (apiBaseUrl s @ ep) opts]\<rparr>)"
  using assms by (simp add: request_def reply_def)

section \<open>Sign-up\<close>



section \<open>Backup\<close>



section \<open>Sign-up for a username that has a local record\<close>

text \<open>
  C4 as stated asks for the failure DuplicateUser whenever a local record exists for the
  username. The check for an empty username or password comes first in the code: alice has a
  record, and signing her up with an empty password fails with another error.
\<close>

theorem signUp_existing_user_counterexample:
  "users sdk_alice ''alice'' = Some alice \<and>
   fst (signUp offline sdk_alice ''alice'' []) = Inl (PortIDError msg_required) \<and>
   PortIDError msg_required \<noteq> DuplicateUser"
  by (simp add: sdk_alice_def signUp_def DuplicateUser_def msg_required_def msg_exists_def)

text \<open>
  C4, amended: when a local record exists for the username, \<^verbatim>\<open>signUp\<close> fails, with DuplicateUser
  if username and password are both non-empty and with the error for missing arguments
  otherwise. The local store, the session, the world outside and the history are as they were:
  no request is issued.
\<close>

theorem signUp_existing_user:
  assumes "users s uname = Some existing"
  shows "signUp pf s uname password =
           (Inl (if uname = [] \<or> password = [] then PortIDError msg_required else DuplicateUser), s)"
  using assms by (simp add: signUp_def DuplicateUser_def)

theorem signUp_existing_user_witness:
  "users sdk_alice ''alice'' = Some alice \<and>
   signUp offline sdk_alice ''alice'' ''pw2'' = (Inl DuplicateUser, sdk_alice)"
proof -
  have rec: "users sdk_alice ''alice'' = Some alice"
    by (simp add: sdk_alice_def)
  from signUp_existing_user [OF rec, of offline "''pw2''"] rec show ?thesis
    by simp
qed

section \<open>Restore\<close>




lemma restoreData_steps:
  "restoreData pf s uname key =
     (case directory_lookup pf s uname of
        (Inl e, s1) \<Rightarrow> (Inl e, s1)
      | (Inr directoryResponse, s1) \<Rightarrow>
         (case get_prop directoryResponse ''ipfsHash'' of
            Inl e \<Rightarrow> (Inl e, s1)
          | Inr ipfsHash \<Rightarrow>
             if \<not> truthy ipfsHash then (Inl NoBackupFound, s1)
             else (case blob_fetch pf s1 ipfsHash of
                    (Inl e, s2) \<Rightarrow> (Inl e, s2)
                  | (Inr restoreResponse, s2) \<Rightarrow>
                     (case encrypted_blob_of restoreResponse of
                        Inl e \<Rightarrow> (Inl e, s2)
                      | Inr encryptedDataBlob \<Rightarrow>
                         if \<not> truthy encryptedDataBlob then (Inl BlobUnavailable, s2)
                         else if decryptData pf encryptedDataBlob key = JNull
                              then (Inl InvalidRecoveryKey, s2)
                              else (Inr (decryptData pf encryptedDataBlob key),
                                    db_users_put s2 \<lparr> username = uname, hashedPassword = None,
                                                      recoveryKey = key, backupHash = ipfsHash \<rparr>)))))"
  unfolding restoreData_def directory_lookup_def blob_fetch_def NoBackupFound_def
    BlobUnavailable_def InvalidRecoveryKey_def Let_def
  by simp



lemma lookup_frame:
  "directory_lookup pf s uname = (r, s') \<Longrightarrow> users s' = users s \<and> currentUser s' = currentUser s"
  unfolding directory_lookup_def using request_frame by blast

lemma blob_fetch_frame:
  "blob_fetch pf s h = (r, s') \<Longrightarrow> users s' = users s \<and> currentUser s' = currentUser s"
  unfolding blob_fetch_def using request_frame by blast






lemma restore_success_steps:
  "(restoreData pf s uname key = (Inr decryptedData, s')) =
     (\<exists>directoryResponse s1 ipfsHash restoreResponse s2 encryptedDataBlob.
         directory_lookup pf s uname = (Inr directoryResponse, s1) \<and>
         get_prop directoryResponse ''ipfsHash'' = Inr ipfsHash \<and> truthy ipfsHash \<and>
         blob_fetch pf s1 ipfsHash = (Inr restoreResponse, s2) \<and>
         encrypted_blob_of restoreResponse = Inr encryptedDataBlob \<and> truthy encryptedDataBlob \<and>
         decryptedData = decryptData pf encryptedDataBlob key \<and> decryptedData \<noteq> JNull \<and>
         s' = db_users_put s2 \<lparr>username = uname, hashedPassword = None,
                                 recoveryKey = key, backupHash = ipfsHash\<rparr>)"
  by (auto simp: restoreData_steps split: prod.splits sum.splits if_splits)

lemma decryptData_parsed:
  assumes "decryptData pf c k \<noteq> JNull"
  shows "\<exists>bs t. AES_decrypt pf c k = Inr bs \<and> Utf8_stringify pf bs = Inr t \<and> t \<noteq> [] \<and>
           JSON_parse pf t = Inr (decryptData pf c k)"
  using assms by (auto simp: decryptData_def split: sum.splits if_splits)


text \<open>
  C8: \<^verbatim>\<open>restoreData\<close> succeeds with a payload exactly when the directory answers with a pointer, storage
  answers with a ciphertext under that pointer, and \<^verbatim>\<open>decryptData\<close> of that ciphertext with the supplied
  key is not null. The payload returned is then that decryption, not null: the value \<^verbatim>\<open>JSON.parse\<close>
  reads from the non-empty text that \<^verbatim>\<open>AES.decrypt\<close> and \<^verbatim>\<open>toString(Utf8)\<close> give. The local record of
  the username is written, over any record it had, with the supplied recovery key, the fetched
  pointer and no password verifier; the session is as it was; and with the verifier absent,
  \<^verbatim>\<open>login\<close> for that username returns false for every password.
\<close>

theorem restoreData_success:
  "(restoreData pf s uname key = (Inr decryptedData, s')) =
     (\<exists>directoryResponse s1 ipfsHash restoreResponse s2 encryptedDataBlob.
         directory_lookup pf s uname = (Inr directoryResponse, s1) \<and>
         get_prop directoryResponse ''ipfsHash'' = Inr ipfsHash \<and> truthy ipfsHash \<and>
         blob_fetch pf s1 ipfsHash = (Inr restoreResponse, s2) \<and>
         encrypted_blob_of restoreResponse = Inr encryptedDataBlob \<and> truthy encryptedDataBlob \<and>
         decryptedData = decryptData pf encryptedDataBlob key \<and> decryptedData \<noteq> JNull \<and>
         (\<exists>bs decryptedString.
             AES_decrypt pf encryptedDataBlob key = Inr bs \<and>
             Utf8_stringify pf bs = Inr decryptedString \<and> decryptedString \<noteq> [] \<and>
             JSON_parse pf decryptedString = Inr decryptedData) \<and>
         s' = db_users_put s2 \<lparr>username = uname, hashedPassword = None,
                                 recoveryKey = key, backupHash = ipfsHash\<rparr> \<and>
         users s' = (users s)(uname \<mapsto> \<lparr>username = uname, hashedPassword = None,
                                          recoveryKey = key, backupHash = ipfsHash\<rparr>) \<and>
         currentUser s' = currentUser s \<and>
         (\<forall>password. login pf s' uname password = (Inr False, s')))"
  (is "?run = ?steps")
proof
  assume ?run
  then obtain directoryResponse s1 ipfsHash restoreResponse s2 encryptedDataBlob where
    q1: "directory_lookup pf s uname = (Inr directoryResponse, s1)" and
    hash: "get_prop directoryResponse ''ipfsHash'' = Inr ipfsHash" "truthy ipfsHash" and
    q2: "blob_fetch pf s1 ipfsHash = (Inr restoreResponse, s2)" and
    blob: "encrypted_blob_of restoreResponse = Inr encryptedDataBlob" "truthy encryptedDataBlob" and
    res: "decryptedData = decryptData pf encryptedDataBlob key" "decryptedData \<noteq> JNull" and
    s': "s' = db_users_put s2 \<lparr>username = uname, hashedPassword = None,
                                recoveryKey = key, backupHash = ipfsHash\<rparr>"
    unfolding restore_success_steps by blast
  let ?row = "\<lparr>username = uname, hashedPassword = None, recoveryKey = key, backupHash = ipfsHash\<rparr>"
  from res decryptData_parsed [of pf encryptedDataBlob key] obtain bs decryptedString where
    parsed: "AES_decrypt pf encryptedDataBlob key = Inr bs"
      "Utf8_stringify pf bs = Inr decryptedString" "decryptedString \<noteq> []"
      "JSON_parse pf decryptedString = Inr decryptedData"
    by auto
  have frame: "users s2 = users s" "currentUser s2 = currentUser s"
    using lookup_frame [OF q1] blob_fetch_frame [OF q2] by simp_all
  have stored: "users s' = (users s)(uname \<mapsto> ?row)" "currentUser s' = currentUser s"
    using s' frame by (simp_all add: db_users_put_def)
  have "login pf s' uname password = (Inr False, s')" for password
    using stored(1) by (simp add: login_def)
  with q1 hash q2 blob res parsed s' stored show ?steps
    by blast
next
  assume ?steps
  then show ?run
    unfolding restore_success_steps by blast
qed

theorem restoreData_success_witness:
  "fst (restoreData online sdk_signed ''alice'' ''4142434445464748494a4b4c4d4e4f50'') = Inr initialData \<and>
   fst (restoreData online sdk_backed ''alice'' ''4142434445464748494a4b4c4d4e4f50'') = Inr app_notes \<and>
   app_notes \<noteq> JNull \<and>
   (\<exists>encryptedDataBlob bs decryptedString.
      AES_decrypt online encryptedDataBlob ''4142434445464748494a4b4c4d4e4f50'' = Inr bs \<and>
      Utf8_stringify online bs = Inr decryptedString \<and>
      JSON_parse online decryptedString = Inr app_notes) \<and>
   (\<exists>ipfsHash.
      users (snd (restoreData online sdk_backed ''alice'' ''4142434445464748494a4b4c4d4e4f50'')) ''alice''
        = Some \<lparr>username = ''alice'', hashedPassword = None,
                 recoveryKey = ''4142434445464748494a4b4c4d4e4f50'', backupHash = ipfsHash\<rparr>) \<and>
   fst (login online sdk_backed ''alice'' ''pw1'') = Inr True \<and>
   fst (login online (snd (restoreData online sdk_backed ''alice'' ''4142434445464748494a4b4c4d4e4f50''))
          ''alice'' ''pw1'') = Inr False"
proof -
  let ?key = "''4142434445464748494a4b4c4d4e4f50''"
  let ?run = "restoreData online sdk_backed ''alice'' ?key"
  have first: "fst (restoreData online sdk_signed ''alice'' ?key) = Inr initialData"
    by code_simp
  have before: "fst (login online sdk_backed ''alice'' ''pw1'') = Inr True"
    by code_simp
  have second: "fst ?run = Inr app_notes"
    by code_simp
  then have run: "?run = (Inr app_notes, snd ?run)"
    by (metis prod.collapse)
  from restoreData_success [THEN iffD1, OF run] obtain ipfsHash encryptedDataBlob bs decryptedString
    where "app_notes \<noteq> JNull"
      and "AES_decrypt online encryptedDataBlob ?key = Inr bs"
      and "Utf8_stringify online bs = Inr decryptedString"
      and "JSON_parse online decryptedString = Inr app_notes"
      and "users (snd ?run) = (users sdk_backed)(''alice'' \<mapsto> \<lparr>username = ''alice'',
              hashedPassword = None, recoveryKey = ?key, backupHash = ipfsHash\<rparr>)"
      and "\<forall>password. login online (snd ?run) ''alice'' password = (Inr False, snd ?run)"
    by blast
  moreover from this have "users (snd ?run) ''alice'' = Some \<lparr>username = ''alice'',
              hashedPassword = None, recoveryKey = ?key, backupHash = ipfsHash\<rparr>"
    "fst (login online (snd ?run) ''alice'' ''pw1'') = Inr False"
    by simp_all
  ultimately show ?thesis
    using first before second by (intro conjI exI) assumption+
qed




section \<open>Encryption\<close>

lemma decryptData_of_text:
  assumes "AES_decrypt pf c K = Inr bs" "Utf8_stringify pf bs = Inr t" "t \<noteq> []"
    and "JSON_parse pf t = Inr P"
  shows "decryptData pf c K = P"
  using assms by (simp add: decryptData_def)

text \<open>
  C2: for a JSON-serializable payload and a valid key, decrypting with the key what was
  encrypted with the key gives the payload back.
\<close>

theorem decrypt_encrypt_roundtrip:
  assumes "json_serializable pf P"
    and "valid_key pf w (JSON_stringify pf P) K"
  shows "decryptData pf (JStr (fst (encryptData pf w P K))) K = P"
proof -
  from assms(1) obtain t where
    t: "JSON_stringify pf P = Some t" "t \<noteq> []" "JSON_parse pf t = Inr P"
    by (auto simp: json_serializable_def split: option.splits)
  from assms(2) t(1) obtain bs where
    "AES_decrypt pf (JStr (fst (AES_encrypt pf w (Some t) K))) K = Inr bs"
    "Utf8_stringify pf bs = Inr t"
    by (auto simp: valid_key_def split: sum.splits)
  with t show ?thesis
    by (simp add: decryptData_of_text encryptData_def)
qed

theorem decrypt_encrypt_roundtrip_witness:
  "json_serializable online initialData \<and>
   valid_key online server0 (JSON_stringify online initialData) ''4142434445464748494a4b4c4d4e4f50'' \<and>
   decryptData online
     (JStr (fst (encryptData online server0 initialData ''4142434445464748494a4b4c4d4e4f50'')))
     ''4142434445464748494a4b4c4d4e4f50'' = initialData"
proof -
  have a: "json_serializable online initialData"
    by code_simp
  have b: "valid_key online server0 (JSON_stringify online initialData) ''4142434445464748494a4b4c4d4e4f50''"
    by code_simp
  from decrypt_encrypt_roundtrip [OF a b] a b show ?thesis
    by simp
qed

subsection \<open>The reference cipher decrypts what it encrypted\<close>

lemma xor_stream_involution: "xor_stream key ks (xor_stream key ks bs) = bs"
  by (induction key ks bs rule: xor_stream.induct) (auto split: list.splits simp: xor.assoc)

lemma hex_value_digit: "n < 16 \<Longrightarrow> hex_value (hex_digit n) = Some n"
  by (auto simp: hex_value_def hex_digit_def Let_def of_char_of)

lemma byte_of_nibbles: "word_of_nat (16 * (unat b div 16) + unat b mod 16) = (b :: 8 word)"
  by simp

lemma bytes_of_hex_of_bytes: "bytes_of_hex (hex_of_bytes bs) = Some bs"
proof (induction bs)
  case Nil
  show ?case by (simp add: hex_of_bytes_def)
next
  case (Cons b bs)
  have "unat b < 256"
    using unsigned_less [of b] by simp
  then have "unat b div 16 < 16" "unat b mod 16 < 16"
    by simp_all
  then show ?case
    using Cons by (simp add: hex_of_bytes_def hex_of_byte_def hex_value_digit)
qed

lemma unat_byte_of_char: "unat (word_of_nat (of_char c) :: 8 word) = of_char c"
  by (simp add: unat_of_nat)

lemma ascii_stringify_bytes_of_string:
  assumes "list_all (\<lambda>c. (of_char c :: nat) < 128) t"
  shows "ascii_stringify (bytes_of_string t) = Inr t"
proof -
  have "list_all (\<lambda>b. unat b < 128) (bytes_of_string t)"
    using assms by (induction t) (simp_all add: bytes_of_string_def unat_byte_of_char)
  moreover have "map (\<lambda>b. char_of (unat b)) (bytes_of_string t) = t"
    by (induction t) (simp_all add: bytes_of_string_def unat_byte_of_char)
  ultimately show ?thesis
    by (simp add: ascii_stringify_def)
qed

lemma hex_digit_plain: "n < 16 \<Longrightarrow> hex_digit n \<noteq> CHR ''&''"
proof -
  assume "n < 16"
  then have "hex_value (hex_digit n) = Some n"
    by (rule hex_value_digit)
  moreover have "hex_value CHR ''&'' = None"
    by (simp add: hex_value_def)
  ultimately show ?thesis
    by auto
qed

lemma hex_of_bytes_plain: "CHR ''&'' \<notin> set (hex_of_bytes bs)"
proof (induction bs)
  case Nil
  show ?case by (simp add: hex_of_bytes_def)
next
  case (Cons b bs)
  have "unat b < 256"
    using unsigned_less [of b] by simp
  then have "unat b div 16 < 16" "unat b mod 16 < 16"
    by simp_all
  then have "hex_digit (unat b div 16) \<noteq> CHR ''&''" "hex_digit (unat b mod 16) \<noteq> CHR ''&''"
    by (simp_all add: hex_digit_plain)
  with Cons show ?case
    by (auto simp: hex_of_bytes_def hex_of_byte_def)
qed

lemma hex_of_bytes_empty: "hex_of_bytes bs = [] \<longleftrightarrow> bs = []"
  by (cases bs) (simp_all add: hex_of_bytes_def hex_of_byte_def)

lemma xor_stream_empty: "xor_stream key ks bs = [] \<longleftrightarrow> bs = []"
  by (cases "(key, ks, bs)" rule: xor_stream.cases) (auto split: list.splits)

lemma bytes_of_string_empty: "bytes_of_string t = [] \<longleftrightarrow> t = []"
  by (simp add: bytes_of_string_def)

lemma encryptData_demo:
  "encryptData (demo origin) w P K
     = (hex_of_bytes (xor_stream (bytes_of_string K) []
          (bytes_of_string (case json_print P of None \<Rightarrow> [] | Some t \<Rightarrow> t))), w)"
  by (simp add: encryptData_def demo_def xor_encrypt_def)

lemma valid_key_demo:
  "list_all (\<lambda>c. (of_char c :: nat) < 128) t \<Longrightarrow> valid_key (demo origin) w (Some t) K"
  by (simp add: valid_key_def demo_def xor_encrypt_def xor_decrypt_def
      bytes_of_hex_of_bytes xor_stream_involution ascii_stringify_bytes_of_string)

lemma initialData_text: "json_print initialData = Some ''{\"sdk_version\":\"1.0.0\"}''"
  by (simp add: initialData_def quote_def)

lemma initialData_serializable: "json_serializable (demo origin) initialData"
  by (simp add: json_serializable_def demo_def initialData_text)
     (simp add: json_read_def initialData_def)

lemma decrypt_initialData:
  "decryptData (demo origin) (JStr (fst (encryptData (demo origin) w initialData K))) K = initialData"
proof -
  have "list_all (\<lambda>c. (of_char c :: nat) < 128) ''{\"sdk_version\":\"1.0.0\"}''"
    by simp
  then have "valid_key (demo origin) w (Some ''{\"sdk_version\":\"1.0.0\"}'') K"
    by (rule valid_key_demo)
  then obtain bs where
    "AES_decrypt (demo origin) (JStr (fst (AES_encrypt (demo origin) w (Some ''{\"sdk_version\":\"1.0.0\"}'') K))) K
       = Inr bs"
    "Utf8_stringify (demo origin) bs = Inr ''{\"sdk_version\":\"1.0.0\"}''"
    by (auto simp: valid_key_def split: sum.splits)
  moreover have "JSON_parse (demo origin) ''{\"sdk_version\":\"1.0.0\"}'' = Inr initialData"
    using initialData_serializable [of origin]
    by (simp add: json_serializable_def demo_def initialData_text)
  moreover have "JSON_stringify (demo origin) initialData = Some ''{\"sdk_version\":\"1.0.0\"}''"
    by (simp add: demo_def initialData_text)
  ultimately show ?thesis
    by (simp add: decryptData_of_text encryptData_def)
qed


text \<open>
  \<^verbatim>\<open>decryptData\<close> never throws: it returns null, or the library decrypted the ciphertext under
  the key to a text that is not empty and the result is what \<^verbatim>\<open>JSON.parse\<close> makes of that text.
\<close>

lemma decryptData_outcome:
  "decryptData pf encryptedData secretKey = JNull \<or>
   (\<exists>bs decryptedString.
      AES_decrypt pf encryptedData secretKey = Inr bs \<and>
      Utf8_stringify pf bs = Inr decryptedString \<and>
      decryptedString \<noteq> [] \<and>
      JSON_parse pf decryptedString = Inr (decryptData pf encryptedData secretKey))"
  by (auto simp: decryptData_def split: sum.splits)

text \<open>
  C3: decrypting with a key other than the one used to encrypt should fail. The only test
  \<^verbatim>\<open>decryptData\<close> makes of the key is that the decrypted text parses, and a cipher without
  authentication, as CryptoJS's AES with a passphrase is, gives some text under every key. On
  the reference platform, whose cipher decrypts what it encrypted under every key
  (\<open>valid_key_demo\<close>), the payload 7 encrypted under the key a comes back under the key b as
  the value 4, not as a failure.
\<close>

theorem decrypt_wrong_key_accepts_garbage:
  "json_serializable online (JNum 7) \<and>
   valid_key online server0 (JSON_stringify online (JNum 7)) ''a'' \<and>
   ''b'' \<noteq> ''a'' \<and>
   decryptData online (JStr (fst (encryptData online server0 (JNum 7) ''a''))) ''b'' = JNum 4"
  by code_simp

section \<open>The sync server answers the SDK's requests\<close>

lemma read_string_quote_chars: "read_string (quote_chars s @ CHR ''\"'' # rest) = Some (s, rest)"
  by (induction s) auto

lemma json_read_set_hash_body:
  "json_read (the (json_print (set_hash_body app u (JStr h)))) = Inr (set_hash_body app u (JStr h))"
  by (simp add: json_read_def set_hash_body_def quote_def read_string_quote_chars)

lemma json_read_backup_body:
  "json_read (the (json_print (backup_body c u))) = Inr (backup_body c u)"
  by (simp add: json_read_def backup_body_def quote_def read_string_quote_chars)

lemma split_at_plain:
  "sep \<notin> set a \<Longrightarrow> split_at sep (a @ sep # rest) = (a, Some rest)"
  by (induction a) auto

lemma split_at_none:
  "sep \<notin> set a \<Longrightarrow> split_at sep a = (a, None)"
  by (induction a) auto

lemma split_all_plain:
  "sep \<notin> set a \<Longrightarrow> split_all sep acc (a @ sep # rest) = (rev acc @ a) # split_all sep [] rest"
  by (induction a arbitrary: acc) auto

lemma split_all_last:
  "sep \<notin> set a \<Longrightarrow> split_all sep acc a = [rev acc @ a]"
  by (induction a arbitrary: acc) auto

lemma parse_query_get_hash:
  assumes "CHR ''&'' \<notin> set app" "CHR ''&'' \<notin> set u"
  shows "parse_query (''app_id='' @ app @ ''&username='' @ u) = [(''app_id'', app), (''username'', u)]"
proof -
  have "split_all CHR ''&'' [] ((''app_id='' @ app) @ CHR ''&'' # (''username='' @ u))
          = (''app_id='' @ app) # split_all CHR ''&'' [] (''username='' @ u)"
    using assms(1) by (subst split_all_plain) auto
  moreover have "split_all CHR ''&'' [] (''username='' @ u) = [''username='' @ u]"
    using assms(2) by (subst split_all_last) auto
  moreover have "query_param (''app_id='' @ app) = (''app_id'', app)"
    using split_at_plain [of "CHR ''=''" "''app_id''" app] by (simp add: query_param_def)
  moreover have "query_param (''username='' @ u) = (''username'', u)"
    using split_at_plain [of "CHR ''=''" "''username''" u] by (simp add: query_param_def)
  ultimately show ?thesis
    by (simp add: parse_query_def)
qed

lemma parse_query_restore:
  assumes "CHR ''&'' \<notin> set h"
  shows "parse_query (''hash='' @ h) = [(''hash'', h)]"
proof -
  have "split_all CHR ''&'' [] (''hash='' @ h) = [''hash='' @ h]"
    using assms by (subst split_all_last) auto
  moreover have "query_param (''hash='' @ h) = (''hash'', h)"
    using split_at_plain [of "CHR ''=''" "''hash''" h] by (simp add: query_param_def)
  ultimately show ?thesis
    by (simp add: parse_query_def)
qed

lemma server_set_hash:
  "sync_server origin w (origin @ ''/api/set-hash'') (post_json (demo origin) (set_hash_body app u (JStr h)))
     = reply (JObj [(''success'', JBool True)]) (w\<lparr>directory := (directory w)((app, u) \<mapsto> JStr h)\<rparr>)"
proof -
  define opts where "opts = post_json (demo origin) (set_hash_body app u (JStr h))"
  have sent: "body_json opts = set_hash_body app u (JStr h)"
    using json_read_set_hash_body [of app u h]
    by (simp add: opts_def body_json_def post_json_def demo_def set_hash_body_def)
  have post: "is_post opts"
    by (simp add: opts_def is_post_def post_json_def)
  have route: "split_at CHR ''?'' ''/api/set-hash'' = (''/api/set-hash'', None)"
    by simp
  have "sync_server origin w (origin @ ''/api/set-hash'') opts
     = reply (JObj [(''success'', JBool True)]) (w\<lparr>directory := (directory w)((app, u) \<mapsto> JStr h)\<rparr>)"
    unfolding sync_server_def
    by (simp add: route sent post set_hash_body_def opt_prop_def)
  then show ?thesis
    by (simp add: opts_def)
qed

lemma server_backup:
  "sync_server origin w (origin @ ''/api/backup'') (post_json (demo origin) (backup_body c u))
     = reply (JObj [(''ipfsHash'', JStr (cid c))]) (w\<lparr>storage := (storage w)(cid c \<mapsto> c)\<rparr>)"
proof -
  define opts where "opts = post_json (demo origin) (backup_body c u)"
  have sent: "body_json opts = backup_body c u"
    using json_read_backup_body [of c u]
    by (simp add: opts_def body_json_def post_json_def demo_def backup_body_def)
  have post: "is_post opts"
    by (simp add: opts_def is_post_def post_json_def)
  have route: "split_at CHR ''?'' ''/api/backup'' = (''/api/backup'', None)"
    by simp
  have "sync_server origin w (origin @ ''/api/backup'') opts
     = reply (JObj [(''ipfsHash'', JStr (cid c))]) (w\<lparr>storage := (storage w)(cid c \<mapsto> c)\<rparr>)"
    unfolding sync_server_def
    by (simp add: route sent post backup_body_def opt_prop_def)
  then show ?thesis
    by (simp add: opts_def)
qed

lemma server_get_hash:
  assumes "CHR ''&'' \<notin> set app" "CHR ''&'' \<notin> set u"
  shows "sync_server origin w (origin @ get_hash_endpoint app u) no_options
     = reply (JObj [(''ipfsHash'', case directory w (app, u) of None \<Rightarrow> JNull | Some h \<Rightarrow> h)]) w"
proof -
  define q where "q = ''app_id='' @ app @ ''&username='' @ u"
  have route: "split_at CHR ''?'' (get_hash_endpoint app u) = (''/api/get-hash'', Some q)"
    using split_at_plain [of "CHR ''?''" "''/api/get-hash''" q]
    by (simp add: get_hash_endpoint_def q_def)
  have params: "parse_query q = [(''app_id'', app), (''username'', u)]"
    unfolding q_def by (rule parse_query_get_hash [OF assms])
  show ?thesis
    unfolding sync_server_def
    by (simp add: route params is_post_def is_get_def no_options_def)
qed

lemma server_restore:
  assumes "CHR ''&'' \<notin> set h"
  shows "sync_server origin w (origin @ restore_endpoint (JStr h)) no_options
     = (case storage w h of
          None \<Rightarrow> refuse ''Not Found'' ''no content for this hash'' w
        | Some c \<Rightarrow> reply (JObj [(''kaironBackup'', JStr c)]) w)"
proof -
  define q where "q = ''hash='' @ h"
  have route: "split_at CHR ''?'' (restore_endpoint (JStr h)) = (''/api/restore'', Some q)"
    using split_at_plain [of "CHR ''?''" "''/api/restore''" q]
    by (simp add: restore_endpoint_def q_def)
  have params: "parse_query q = [(''hash'', h)]"
    unfolding q_def by (rule parse_query_restore [OF assms])
  show ?thesis
    unfolding sync_server_def
    by (simp add: route params is_post_def is_get_def no_options_def)
qed

section \<open>Restore after sign-up\<close>

text \<open>What a successful sign-up on the reference platform leaves behind.\<close>

lemma signUp_reference:
  assumes base: "apiBaseUrl s = origin"
    and up: "signUp (demo origin) s uname password = (Inr key, s')"
  shows "\<exists>c w. c = fst (encryptData (demo origin) w initialData key) \<and> c \<noteq> [] \<and>
           appId s' = appId s \<and> apiBaseUrl s' = origin \<and>
           directory (world s') (appId s, uname) = Some (JStr (cid c)) \<and>
           storage (world s') (cid c) = Some c"
proof -
  from up have valid: "uname \<noteq> []" "password \<noteq> []" and fresh: "users s uname = None"
    by (auto simp: signUp_def split: if_splits option.splits)
  obtain key0 w1 where gen: "generateRecoveryKey (demo origin) (world s) = (key0, w1)"
    by force
  define s1 where "s1 = s\<lparr>world := w1\<rparr>"
  define o1 where "o1 = post_json (demo origin) (set_hash_body (appId s) uname (JStr ''pending_first_backup''))"
  define s2 where "s2 = s1\<lparr>world := w1\<lparr>directory := (directory w1)((appId s, uname) \<mapsto> JStr ''pending_first_backup'')\<rparr>,
                          history := history s1 @ [Fetch (apiBaseUrl s1 @ ''/api/set-hash'') o1]\<rparr>"
  have q1: "request (demo origin) s1 ''/api/set-hash'' o1 = (Inr (JObj [(''success'', JBool True)]), s2)"
    unfolding s2_def o1_def
    by (rule request_reply) (simp add: demo_def s1_def base server_set_hash [unfolded demo_def])
  obtain c w3 where encd: "encryptData (demo origin) (world s2) initialData key0 = (c, w3)"
    by force
  have w3: "w3 = world s2" and c: "c = fst (encryptData (demo origin) (world s2) initialData key0)"
    using encd by (auto simp: encryptData_demo)
  have nonempty: "c \<noteq> []"
    using c by (simp add: encryptData_demo initialData_text
        hex_of_bytes_empty xor_stream_empty bytes_of_string_empty)
  define s3 where "s3 = s2\<lparr>world := w3\<rparr>"
  define o2 where "o2 = post_json (demo origin) (backup_body c uname)"
  define s4 where "s4 = s3\<lparr>world := (world s3)\<lparr>storage := (storage (world s3))(cid c \<mapsto> c)\<rparr>,
                          history := history s3 @ [Fetch (apiBaseUrl s3 @ ''/api/backup'') o2]\<rparr>"
  have q2: "request (demo origin) s3 ''/api/backup'' o2 = (Inr (JObj [(''ipfsHash'', JStr (cid c))]), s4)"
    unfolding s4_def o2_def
    by (rule request_reply)
       (simp add: demo_def s3_def s2_def s1_def base server_backup [unfolded demo_def])
  have app4: "appId s4 = appId s"
    by (simp add: s4_def s3_def s2_def s1_def)
  define o3 where "o3 = post_json (demo origin) (set_hash_body (appId s) uname (JStr (cid c)))"
  define s5 where "s5 = s4\<lparr>world := (world s4)\<lparr>directory := (directory (world s4))((appId s, uname) \<mapsto> JStr (cid c))\<rparr>,
                          history := history s4 @ [Fetch (apiBaseUrl s4 @ ''/api/set-hash'') o3]\<rparr>"
  have q3: "request (demo origin) s4 ''/api/set-hash'' o3 = (Inr (JObj [(''success'', JBool True)]), s5)"
    unfolding s5_def o3_def
    by (rule request_reply)
       (simp add: demo_def s4_def s3_def s2_def s1_def base server_set_hash [unfolded demo_def])
  have hash: "get_prop (JObj [(''ipfsHash'', JStr (cid c))]) ''ipfsHash'' = Inr (JStr (cid c))"
    "truthy (JStr (cid c))"
    by (simp_all add: cid_def)
  have fresh5: "users s5 (username \<lparr>username = uname, hashedPassword = Some (hashPassword (demo origin) password),
                   recoveryKey = key0, backupHash = JStr (cid c)\<rparr>) = None"
    using fresh by (simp add: s5_def s4_def s3_def s2_def s1_def)
  have "signUp (demo origin) s uname password
          = (Inr key0, snd (db_users_add s5 \<lparr>username = uname,
                hashedPassword = Some (hashPassword (demo origin) password),
                recoveryKey = key0, backupHash = JStr (cid c)\<rparr>))"
    using valid fresh gen q1 encd q2 hash q3 fresh5
    by (simp add: signUp_def s1_def [symmetric] o1_def [symmetric] s3_def [symmetric]
        o2_def [symmetric] app4 o3_def [symmetric] db_users_add_def Let_def)
  with up have key: "key = key0" and s': "s' = snd (db_users_add s5 \<lparr>username = uname,
                hashedPassword = Some (hashPassword (demo origin) password),
                recoveryKey = key0, backupHash = JStr (cid c)\<rparr>)"
    by auto
  have "appId s' = appId s" "apiBaseUrl s' = origin"
    "directory (world s') (appId s, uname) = Some (JStr (cid c))"
    "storage (world s') (cid c) = Some c"
    using fresh5 base unfolding s'
    by (simp_all add: db_users_add_def s5_def s4_def s3_def s2_def s1_def)
  with c key nonempty show ?thesis
    by blast
qed

text \<open>
  On the reference platform, when neither the application id nor the username contains \<^verbatim>\<open>&\<close>,
  a restore after a successful sign-up returns the initial payload.
\<close>

lemma restore_after_signUp_reference:
  assumes base: "apiBaseUrl s = origin"
    and up: "signUp (demo origin) s uname password = (Inr key, s')"
    and plain: "CHR ''&'' \<notin> set (appId s)" "CHR ''&'' \<notin> set uname"
  shows "fst (restoreData (demo origin) s' uname key) = Inr initialData"
proof -
  from signUp_reference [OF base up] obtain c w where
    c: "c = fst (encryptData (demo origin) w initialData key)" "c \<noteq> []" and
    same: "appId s' = appId s" "apiBaseUrl s' = origin" and
    dir: "directory (world s') (appId s, uname) = Some (JStr (cid c))" and
    sto: "storage (world s') (cid c) = Some c"
    by blast
  define s1 where "s1 = s'\<lparr>world := world s',
      history := history s' @ [Fetch (apiBaseUrl s' @ get_hash_endpoint (appId s') uname) no_options]\<rparr>"
  have q1: "request (demo origin) s' (get_hash_endpoint (appId s') uname) no_options
      = (Inr (JObj [(''ipfsHash'', JStr (cid c))]), s1)"
    unfolding s1_def
    by (rule request_reply) (simp add: demo_def same server_get_hash [OF plain] dir)
  have "c = hex_of_bytes (xor_stream (bytes_of_string key) [] (bytes_of_string ''{\"sdk_version\":\"1.0.0\"}''))"
    using c(1) by (simp add: encryptData_demo initialData_text)
  then have "CHR ''&'' \<notin> set (cid c)"
    using hex_of_bytes_plain by (simp add: cid_def)
  then have answer: "sync_server origin (world s1) (origin @ restore_endpoint (JStr (cid c))) no_options
      = reply (JObj [(''kaironBackup'', JStr c)]) (world s1)"
    using sto by (simp add: server_restore s1_def)
  define s2 where "s2 = s1\<lparr>world := world s1,
      history := history s1 @ [Fetch (apiBaseUrl s1 @ restore_endpoint (JStr (cid c))) no_options]\<rparr>"
  have q2: "request (demo origin) s1 (restore_endpoint (JStr (cid c))) no_options
      = (Inr (JObj [(''kaironBackup'', JStr c)]), s2)"
    unfolding s2_def
    by (rule request_reply) (simp add: demo_def s1_def same answer [unfolded s1_def, simplified])
  have blob: "encrypted_blob_of (JObj [(''kaironBackup'', JStr c)]) = Inr (JStr c)"
    using c(2) by (simp add: encrypted_blob_of_def)
  have dec: "decryptData (demo origin) (JStr c) key = initialData"
    unfolding c(1) by (rule decrypt_initialData)
  have "initialData \<noteq> JNull"
    by (simp add: initialData_def)
  with q1 q2 blob dec c(2) show ?thesis
    by (simp add: restoreData_def cid_def)
qed

text \<open>For alice, sign-up and then restore with the returned key give the initial payload.\<close>

lemma restore_after_signUp_alice:
  "fst (signUp online sdk0 ''alice'' ''pw1'') = Inr ''4142434445464748494a4b4c4d4e4f50'' \<and>
   fst (restoreData online (snd (signUp online sdk0 ''alice'' ''pw1'')) ''alice''
          ''4142434445464748494a4b4c4d4e4f50'') = Inr initialData"
  by code_simp

text \<open>
  C1: after a successful \<^verbatim>\<open>signUp\<close>, \<^verbatim>\<open>restoreData\<close> with the returned recovery key should return
  the initial payload, for every username. For the username \<^verbatim>\<open>a&b\<close> it fails instead: \<^verbatim>\<open>signUp\<close>
  sends the username inside a JSON body and the directory registers \<^verbatim>\<open>a&b\<close>, but \<^verbatim>\<open>restoreData\<close>
  writes the username into the query string as it is, the request reads \<^verbatim>\<open>username=a&b\<close>, and
  the directory is asked for \<^verbatim>\<open>a\<close>.
\<close>

theorem restore_after_signUp_ampersand:
  "fst (signUp online sdk0 ''a&b'' ''pw1'') = Inr ''4142434445464748494a4b4c4d4e4f50'' \<and>
   fst (restoreData online (snd (signUp online sdk0 ''a&b'' ''pw1'')) ''a&b''
          ''4142434445464748494a4b4c4d4e4f50'') = Inl NoBackupFound"
  by code_simp

end
